theory Spec2Isabelle
  imports Main "HOL-Library.List_Lexorder" "HOL-Library.Char_ord" "HOL-Library.Multiset"
begin

section \<open>Python values used by the handlers\<close>

text \<open>
  Python strings are modelled as \<^typ>\<open>string\<close>, one \<^typ>\<open>char\<close> per code point
  (code points below 256). Python compares strings lexicographically by code point, a
  proper prefix being smaller: this is the order of \<open>List_Lexorder\<close> over \<open>Char_ord\<close>.
  Python integers are unbounded: \<^typ>\<open>int\<close>.
\<close>

definition isspace :: "char \<Rightarrow> bool" where
  \<comment> \<open>\<open>str.isspace\<close> on the code points below 256\<close>
  "isspace c = ((of_char c :: nat) \<in> {9, 10, 11, 12, 13, 28, 29, 30, 31, 32, 133, 160})"

definition strip :: "string \<Rightarrow> string" where
  \<comment> \<open>\<open>s.strip()\<close>\<close>
  "strip s = rev (dropWhile isspace (rev (dropWhile isspace s)))"

definition slice_to :: "int \<Rightarrow> 'a list \<Rightarrow> 'a list" where
  \<comment> \<open>\<open>xs[:n]\<close>; a negative bound counts from the end\<close>
  "slice_to n xs = (if 0 \<le> n then take (nat n) xs else take (length xs - nat (- n)) xs)"

definition last20 :: "'a list \<Rightarrow> 'a list" where
  \<comment> \<open>\<open>xs[-20:]\<close>\<close>
  "last20 xs = drop (length xs - 20) xs"

fun str_nat :: "nat \<Rightarrow> string" where
  "str_nat n = (if n < 10 then [''0123456789'' ! n]
                else str_nat (n div 10) @ [''0123456789'' ! (n mod 10)])"

declare str_nat.simps [simp del]

definition str_int :: "int \<Rightarrow> string" where
  \<comment> \<open>\<open>str(i)\<close> and \<open>f'{i}'\<close> of an integer\<close>
  "str_int i = (if i < 0 then CHR ''-'' # str_nat (nat (- i)) else str_nat (nat i))"

definition py_sort_reverse :: "('a \<Rightarrow> 'k::linorder) \<Rightarrow> 'a list \<Rightarrow> 'a list" where
  \<comment> \<open>\<open>xs.sort(key=f, reverse=True)\<close>: descending and stable (equal keys keep their order)\<close>
  "py_sort_reverse f xs = rev (sort_key f (rev xs))"

section \<open>extension\_manager.py: the request ledger\<close>

record ExtensionRequest =
  session_id :: string
  email :: string
  timestamp :: string
  status :: string
  queries_granted :: int
  approved_at :: "string option"
  request_id :: string

text \<open>
  The file \<open>extension_requests.ndjson\<close>: \<open>None\<close> when it does not exist, otherwise its
  records in file order (one JSON object per line, as \<open>create_request\<close> and the rewrites
  of \<open>approve_request\<close> and \<open>deny_request\<close> leave it).
\<close>

type_synonym ledger = "ExtensionRequest list option"

text \<open>
  An argument of \<open>int(d.get(key, default))\<close>: the key is not there, or it holds a value
  that \<open>int\<close> converts to the given integer (\<open>5\<close>, \<open>"5"\<close>, \<open>5.7\<close>, \<open>true\<close>), or it holds a
  value on which \<open>int\<close> raises (\<open>"abc"\<close>, \<open>null\<close>, an array, an object).
\<close>

datatype int_arg = Unset | IntOf int | NoInt

definition int_of_arg :: "int \<Rightarrow> int_arg \<Rightarrow> string + int" where
  "int_of_arg dflt a =
     (case a of Unset \<Rightarrow> Inr dflt | IntOf n \<Rightarrow> Inr n | NoInt \<Rightarrow> Inl ''ValueError'')"

text \<open>
  What lies outside a request handler and is read by it: the clock, the UUID generator,
  the regular-expression engine and the remote services. Each field is the value the
  named call returns during the request; \<open>Inl e\<close> (or \<open>Some e\<close> for a call without
  result) is an exception with text \<open>e\<close>.
\<close>

record world =
  uuid4 :: string
    \<comment> \<open>\<open>str(uuid.uuid4())\<close>\<close>
  now_isoformat :: string
    \<comment> \<open>\<open>datetime.now().isoformat()\<close> in extension\_manager\<close>
  now_timestamp :: int
    \<comment> \<open>\<open>int(datetime.now().timestamp())\<close> in \<open>create_request\<close>\<close>
  now_isoformat_app :: string
    \<comment> \<open>\<open>datetime.now().isoformat()\<close> in \<open>approve_extension\<close>\<close>
  re_findall :: "string \<Rightarrow> string list"
    \<comment> \<open>\<open>re.findall(EMAIL_REGEX, text)\<close>\<close>
  re_sub_patterns :: "string \<Rightarrow> string"
    \<comment> \<open>the loop of \<open>re.sub(pattern, '', user_input)\<close> over \<open>patterns_to_remove\<close>\<close>
  classify_intent :: "string \<Rightarrow> string + string"
    \<comment> \<open>\<open>get_openai_client\<close>, \<open>get_company_names\<close>, \<open>classify_intent\<close>\<close>
  get_refusal_response :: string
  log_interaction :: "string \<Rightarrow> string \<Rightarrow> string \<Rightarrow> bool \<Rightarrow> string option"
    \<comment> \<open>session id, user message, response, \<open>filtered_pre_llm\<close>\<close>
  load_persona :: "string + string"
  chat_completion :: "(string \<times> string) list \<Rightarrow> string + string"
    \<comment> \<open>\<open>get_openai_client\<close> and \<open>client.chat.completions.create\<close> on the messages\<close>
  environ_SMTP_PORT :: int_arg
    \<comment> \<open>the environment variable \<open>SMTP_PORT\<close>, as \<open>int(os.environ.get('SMTP_PORT', 587))\<close> sees it\<close>

definition records_of :: "ledger \<Rightarrow> ExtensionRequest list" where
  "records_of file = (case file of None \<Rightarrow> [] | Some rs \<Rightarrow> rs)"

definition create_request :: "world \<Rightarrow> ledger \<Rightarrow> string \<Rightarrow> string \<Rightarrow> ExtensionRequest \<times> ledger" where
  "create_request w file sid mail =
     (let request = \<lparr>session_id = sid, email = mail, timestamp = now_isoformat w,
                     status = ''pending'', queries_granted = 0, approved_at = None,
                     request_id = sid @ ''_'' @ str_int (now_timestamp w)\<rparr>
      in (request, Some (records_of file @ [request])))"

definition get_pending_requests :: "ledger \<Rightarrow> ExtensionRequest list" where
  "get_pending_requests file =
     (case file of None \<Rightarrow> []
      | Some rs \<Rightarrow> py_sort_reverse timestamp (filter (\<lambda>r. status r = ''pending'') rs))"

definition get_all_requests :: "ledger \<Rightarrow> string \<Rightarrow> ExtensionRequest list" where
  "get_all_requests file status_filter =
     (case file of None \<Rightarrow> []
      | Some rs \<Rightarrow> py_sort_reverse timestamp
          (filter (\<lambda>r. status_filter = ''all'' \<or> status r = status_filter) rs))"

definition get_request_by_id :: "ledger \<Rightarrow> string option \<Rightarrow> ExtensionRequest option" where
  \<comment> \<open>the identifier is \<open>data.get('request_id')\<close>, \<open>None\<close> when the body holds no string there\<close>
  "get_request_by_id file rid =
     (case file of None \<Rightarrow> None | Some rs \<Rightarrow> find (\<lambda>r. Some (request_id r) = rid) rs)"

fun update_first :: "('a \<Rightarrow> bool) \<Rightarrow> ('a \<Rightarrow> 'a) \<Rightarrow> 'a list \<Rightarrow> 'a list" where
  \<comment> \<open>\<open>for req in requests: if p(req): update(req); break\<close>\<close>
  "update_first p f [] = []"
| "update_first p f (r # rs) = (if p r then f r # rs else r # update_first p f rs)"

definition approve_request :: "world \<Rightarrow> ledger \<Rightarrow> string option \<Rightarrow> int \<Rightarrow> ledger" where
  "approve_request w file rid granted =
     (case file of None \<Rightarrow> None
      | Some rs \<Rightarrow> Some (update_first (\<lambda>r. Some (request_id r) = rid)
          (\<lambda>r. r\<lparr>status := ''approved'', queries_granted := granted,
                 approved_at := Some (now_isoformat w)\<rparr>) rs))"

definition deny_request :: "world \<Rightarrow> ledger \<Rightarrow> string option \<Rightarrow> ledger" where
  "deny_request w file rid =
     (case file of None \<Rightarrow> None
      | Some rs \<Rightarrow> Some (update_first (\<lambda>r. Some (request_id r) = rid)
          (\<lambda>r. r\<lparr>status := ''denied'', approved_at := Some (now_isoformat w)\<rparr>) rs))"

definition has_pending_request :: "ledger \<Rightarrow> string \<Rightarrow> bool" where
  "has_pending_request file sid =
     (case file of None \<Rightarrow> False
      | Some rs \<Rightarrow> list_ex (\<lambda>r. session_id r = sid \<and> status r = ''pending'') rs)"

section \<open>email\_detector.py\<close>

definition extract_email :: "world \<Rightarrow> string \<Rightarrow> string option" where
  "extract_email w text = (case re_findall w text of [] \<Rightarrow> None | m # _ \<Rightarrow> Some m)"

section \<open>app.py: configuration, session, files\<close>

record config =
  MAX_QUERIES_PER_SESSION :: int
  MAX_QUERY_LENGTH :: int
  ADMIN_RESET_KEY :: "string option"

text \<open>
  The Flask session (a dictionary kept in the client's cookie). A key that is absent and a
  key holding the default that \<open>session.get\<close> supplies are not told apart by the code:
  \<open>query_count\<close> absent is 0, \<open>conversation\<close> absent is \<open>[]\<close>, \<open>extension_requested\<close>
  absent is false.
\<close>

record session =
  sess_query_count :: int
  sess_conversation :: "(string \<times> string) list"
  sess_session_id :: "string option"
  sess_extension_requested :: bool
  sess_extension_request_id :: "string option"

record ApprovalGrant =
  grant_queries_granted :: int
  grant_approved_at :: string
  grant_request_id :: "string option"
  grant_email :: string

text \<open>
  The file \<open>approved_extensions.json\<close>: absent; present but opening it or \<open>json.load\<close>
  raises (\<open>Corrupt\<close>); holding a JSON value that is not an object (\<open>NotObject\<close>); or holding
  a dictionary from session identifiers to grants, as \<open>approve_extension\<close> writes it.
\<close>

datatype approvals_file =
  Absent | Corrupt | NotObject | Approvals "string \<Rightarrow> ApprovalGrant option"

record files =
  extension_requests :: ledger
  approved_extensions :: approvals_file

datatype body =
    LimitReachedExtension string int int
      \<comment> \<open>error \<open>limit_reached\<close>, \<open>extension_requested: True\<close>; message, query\_count, max\_queries\<close>
  | LimitReached string int int
      \<comment> \<open>error \<open>limit_reached\<close>; message, query\_count, max\_queries\<close>
  | Error string
  | MessageTooLong int
  | FilteredResponse string int int int
      \<comment> \<open>response, query\_count, max\_queries, queries\_remaining; \<open>filtered_pre_llm: True\<close>\<close>
  | ChatResponse string int int int
  | Failed string
      \<comment> \<open>error \<open>Failed to get response\<close> with the exception text\<close>
  | Success string string
      \<comment> \<open>status \<open>success\<close>; message, session\_id\<close>
  | InternalServerError
      \<comment> \<open>an exception that no handler catches\<close>
  | Aborted
      \<comment> \<open>the error page of a request that \<open>request.get_json()\<close> aborts\<close>

type_synonym response = "body \<times> nat"

text \<open>
  The outcome of \<open>request.get_json()\<close>, called without \<open>silent=True\<close>, as far as the
  handlers can tell outcomes apart:
  \<^item> \<open>Aborts code\<close>: the request is aborted with an HTTP error: 415 when the content type
    is not JSON, as for a request without body, 400 when the body is not valid JSON;
  \<^item> \<open>Falsy\<close>: a falsy value that is not an object: \<open>null\<close>, \<open>false\<close>, \<open>0\<close>, \<open>""\<close>, \<open>[]\<close>;
  \<^item> \<open>Scalar\<close>: \<open>true\<close> or a number other than 0, on which \<open>'message' in data\<close> raises;
  \<^item> \<open>Sequence b\<close>: a non-empty string or array, \<open>b\<close> telling whether \<open>'message' in data\<close>;
  \<^item> \<open>Object d\<close>: a JSON object (\<open>{}\<close> included), \<open>d\<close> holding the fields the handler reads.

  A field of an object is missing, holds a string, or holds a value of another JSON type
  (\<open>null\<close>, a number, a boolean, an array, an object). Writing a file always succeeds.
\<close>

datatype 'a get_json = Aborts nat | Falsy | Scalar | Sequence bool | Object 'a

datatype field = Missing | Text string | NotText

record chat_json =
  json_message :: field

record admin_json =
  json_key :: field
  json_request_id :: field
  json_queries_granted :: int_arg

definition field_get :: "field \<Rightarrow> string \<Rightarrow> field" where
  \<comment> \<open>\<open>data.get(key, default)\<close> with a string default\<close>
  "field_get f dflt = (case f of Missing \<Rightarrow> Text dflt | _ \<Rightarrow> f)"

definition field_eq :: "field \<Rightarrow> string \<Rightarrow> bool" where
  \<comment> \<open>\<open>value == s\<close> for a string \<open>s\<close>: only an equal string is equal\<close>
  "field_eq f s = (case f of Text t \<Rightarrow> t = s | _ \<Rightarrow> False)"

definition text_of :: "field \<Rightarrow> string option" where
  \<comment> \<open>\<open>data.get(key)\<close> for comparison with the identifiers of the ledger, which are
      strings: \<open>None\<close> is a value that equals none of them\<close>
  "text_of f = (case f of Text t \<Rightarrow> Some t | _ \<Rightarrow> None)"

definition truthy :: "string option \<Rightarrow> bool" where
  "truthy v = (case v of None \<Rightarrow> False | Some s \<Rightarrow> s \<noteq> [])"

definition sanitize_input :: "config \<Rightarrow> world \<Rightarrow> string \<Rightarrow> string" where
  "sanitize_input cfg w user_input =
     (if user_input = [] then []
      else strip (re_sub_patterns w (slice_to (MAX_QUERY_LENGTH cfg) user_input)))"

definition get_query_count :: "session \<Rightarrow> int" where
  "get_query_count s = sess_query_count s"

definition increment_query_count :: "session \<Rightarrow> int \<times> session" where
  "increment_query_count s =
     (let count = get_query_count s + 1 in (count, s\<lparr>sess_query_count := count\<rparr>))"

definition get_conversation_history :: "session \<Rightarrow> (string \<times> string) list" where
  "get_conversation_history s = sess_conversation s"

definition add_to_conversation :: "string \<Rightarrow> string \<Rightarrow> session \<Rightarrow> session" where
  "add_to_conversation role content s =
     s\<lparr>sess_conversation := last20 (get_conversation_history s @ [(role, content)])\<rparr>"

definition get_session_id :: "world \<Rightarrow> session \<Rightarrow> string \<times> session" where
  "get_session_id w s =
     (case sess_session_id s of
        Some sid \<Rightarrow> (sid, s)
      | None \<Rightarrow> (slice_to 8 (uuid4 w), s\<lparr>sess_session_id := Some (slice_to 8 (uuid4 w))\<rparr>))"

definition json_load ::
  "approvals_file \<Rightarrow> string + (string \<Rightarrow> ApprovalGrant option) option" where
  \<comment> \<open>opening and parsing the file: an exception, a value that is not a dictionary
      (\<open>Inr None\<close>), or the dictionary\<close>
  "json_load f =
     (case f of
        Approvals m \<Rightarrow> Inr (Some m)
      | NotObject \<Rightarrow> Inr None
      | _ \<Rightarrow> Inl ''Exception'')"

definition effective_limit :: "config \<Rightarrow> approvals_file \<Rightarrow> string \<Rightarrow> int" where
  \<comment> \<open>the body of \<open>get_max_queries_for_session\<close> after the session id is known\<close>
  "effective_limit cfg f sid =
     (let base_max = MAX_QUERIES_PER_SESSION cfg in
      case f of
        Absent \<Rightarrow> base_max
      | _ \<Rightarrow> (case json_load f of
                Inr (Some approvals) \<Rightarrow>
                  (case approvals sid of
                     Some g \<Rightarrow> base_max + grant_queries_granted g
                   | None \<Rightarrow> base_max)
              | Inr None \<Rightarrow> base_max
              | Inl e \<Rightarrow> base_max))"

definition get_max_queries_for_session :: "config \<Rightarrow> world \<Rightarrow> files \<Rightarrow> session \<Rightarrow> int \<times> session" where
  "get_max_queries_for_session cfg w fs s =
     (let (sid, s') = get_session_id w s
      in (effective_limit cfg (approved_extensions fs) sid, s'))"

section \<open>app.py: the chat handler\<close>

definition received_message :: string where
  "received_message = ''Extension request received! We'' @ [CHR 0x27] @
     ''ll review your request and may extend your session. Check back shortly.''"

definition pending_message :: string where
  "pending_message = ''Your extension request is pending review. Please check back later.''"

definition limit_message :: "int \<Rightarrow> string" where
  "limit_message max_queries =
     ''You have reached the maximum of '' @ str_int max_queries @
     '' questions for this session. To request more questions, send a message with your email address.''"

definition limit_reached_default :: "int \<Rightarrow> int \<Rightarrow> session \<Rightarrow> files \<Rightarrow> response \<times> session \<times> files" where
  \<comment> \<open>lines 256 to 267: no email detected or already requested\<close>
  "limit_reached_default current_count max_queries s fs =
     ((LimitReached (if sess_extension_requested s then pending_message
                     else limit_message max_queries) current_count max_queries, 429), s, fs)"

definition chat_limit_reached ::
  "world \<Rightarrow> chat_json get_json \<Rightarrow> int \<Rightarrow> int \<Rightarrow> string \<Rightarrow> session \<Rightarrow> files
   \<Rightarrow> response \<times> session \<times> files" where
  \<comment> \<open>the branch \<open>current_count >= max_queries\<close>. After \<open>create_request\<close> the SMTP
      configuration is read, where \<open>int\<close> of the port may raise; the notification mail
      itself is sent best-effort and leaves no trace in the session or the files\<close>
  "chat_limit_reached w data current_count max_queries sid s fs =
     (case data of
        Aborts code \<Rightarrow> ((Aborted, code), s, fs)
      | Falsy \<Rightarrow> limit_reached_default current_count max_queries s fs
      | Scalar \<Rightarrow> ((InternalServerError, 500), s, fs)
      | Sequence has_message \<Rightarrow>
          if has_message then ((InternalServerError, 500), s, fs)
          else limit_reached_default current_count max_queries s fs
      | Object d \<Rightarrow>
          (case json_message d of
             Missing \<Rightarrow> limit_reached_default current_count max_queries s fs
           | NotText \<Rightarrow> ((InternalServerError, 500), s, fs)
           | Text m \<Rightarrow>
               (let user_message = strip m;
                    mail = extract_email w user_message
                in if truthy mail \<and> \<not> has_pending_request (extension_requests fs) sid then
                     (case mail of
                        None \<Rightarrow> limit_reached_default current_count max_queries s fs
                      | Some e \<Rightarrow>
                          (let (ext_request, ledger') = create_request w (extension_requests fs) sid e
                           in case int_of_arg 587 (environ_SMTP_PORT w) of
                                Inl err \<Rightarrow>
                                  ((InternalServerError, 500), s, fs\<lparr>extension_requests := ledger'\<rparr>)
                              | Inr port \<Rightarrow>
                                  (let s' = s\<lparr>sess_extension_requested := True,
                                             sess_extension_request_id := Some (request_id ext_request)\<rparr>
                                   in ((LimitReachedExtension received_message current_count
                                          max_queries, 429),
                                       s', fs\<lparr>extension_requests := ledger'\<rparr>))))
                   else limit_reached_default current_count max_queries s fs)))"

definition chat_filtered ::
  "config \<Rightarrow> world \<Rightarrow> string \<Rightarrow> string \<Rightarrow> session \<Rightarrow> files
   \<Rightarrow> (response \<times> session \<times> files) option" where
  \<comment> \<open>the first \<open>try\<close> block: \<open>Some\<close> when it returns the canned refusal, \<open>None\<close> when control
      goes on to the conversation (in scope, or an exception was caught)\<close>
  "chat_filtered cfg w user_message sid s fs =
     (case classify_intent w user_message of
        Inl e \<Rightarrow> None
      | Inr scope \<Rightarrow>
          if scope = ''OUT_OF_SCOPE'' then
            (let refusal_message = get_refusal_response w in
             case log_interaction w sid user_message refusal_message True of
               Some e \<Rightarrow> None
             | None \<Rightarrow>
                 (let (new_count, s1) = increment_query_count s;
                      (max_queries, s2) = get_max_queries_for_session cfg w fs s1
                  in Some ((FilteredResponse refusal_message new_count max_queries
                              (max_queries - new_count), 200), s2, fs)))
          else None)"

definition chat_conversation ::
  "config \<Rightarrow> world \<Rightarrow> string \<Rightarrow> string \<Rightarrow> session \<Rightarrow> files
   \<Rightarrow> response \<times> session \<times> files" where
  \<comment> \<open>the second \<open>try\<close> block\<close>
  "chat_conversation cfg w user_message sid s fs =
     (case load_persona w of
        Inl e \<Rightarrow> ((Failed e, 500), s, fs)
      | Inr persona \<Rightarrow>
          (let s1 = add_to_conversation ''user'' user_message s;
               messages = (''system'', persona) # get_conversation_history s1
           in case chat_completion w messages of
                Inl e \<Rightarrow> ((Failed e, 500), s1, fs)
              | Inr assistant_message \<Rightarrow>
                  (case log_interaction w sid user_message assistant_message False of
                     Some e \<Rightarrow> ((Failed e, 500), s1, fs)
                   | None \<Rightarrow>
                       (let s2 = add_to_conversation ''assistant'' assistant_message s1;
                            (new_count, s3) = increment_query_count s2;
                            (max_queries, s4) = get_max_queries_for_session cfg w fs s3
                        in ((ChatResponse assistant_message new_count max_queries
                               (max_queries - new_count), 200), s4, fs)))))"

definition chat_admitted ::
  "config \<Rightarrow> world \<Rightarrow> chat_json get_json \<Rightarrow> string \<Rightarrow> session \<Rightarrow> files
   \<Rightarrow> response \<times> session \<times> files" where
  \<comment> \<open>lines 269 onwards: input validation, classification, conversation\<close>
  "chat_admitted cfg w data sid s fs =
     (case data of
        Aborts code \<Rightarrow> ((Aborted, code), s, fs)
      | Falsy \<Rightarrow> ((Error ''No message provided'', 400), s, fs)
      | Scalar \<Rightarrow> ((InternalServerError, 500), s, fs)
      | Sequence has_message \<Rightarrow>
          if has_message then ((InternalServerError, 500), s, fs)
          else ((Error ''No message provided'', 400), s, fs)
      | Object d \<Rightarrow>
          (case json_message d of
             Missing \<Rightarrow> ((Error ''No message provided'', 400), s, fs)
           | NotText \<Rightarrow> ((InternalServerError, 500), s, fs)
           | Text m \<Rightarrow>
               (let user_message = strip m in
                if user_message = [] then ((Error ''Empty message'', 400), s, fs)
                else
                  (let user_message = sanitize_input cfg w user_message in
                   if user_message = [] then ((Error ''Invalid message'', 400), s, fs)
                   else if int (length user_message) > MAX_QUERY_LENGTH cfg then
                     ((MessageTooLong (MAX_QUERY_LENGTH cfg), 400), s, fs)
                   else
                     (case chat_filtered cfg w user_message sid s fs of
                        Some r \<Rightarrow> r
                      | None \<Rightarrow> chat_conversation cfg w user_message sid s fs)))))"

definition chat ::
  "config \<Rightarrow> world \<Rightarrow> chat_json get_json \<Rightarrow> session \<Rightarrow> files \<Rightarrow> response \<times> session \<times> files" where
  \<comment> \<open>\<open>data\<close> is the outcome of \<open>request.get_json()\<close>, which either branch calls first\<close>
  "chat cfg w data s fs =
     (let current_count = get_query_count s;
          (max_queries, s1) = get_max_queries_for_session cfg w fs s;
          sid = fst (get_session_id w s1)
      in if current_count \<ge> max_queries then
           chat_limit_reached w data current_count max_queries sid s1 fs
         else chat_admitted cfg w data sid s1 fs)"

section \<open>app.py: the administrator's handlers\<close>

definition approve_extension ::
  "config \<Rightarrow> world \<Rightarrow> admin_json get_json \<Rightarrow> files \<Rightarrow> response \<times> files" where
  "approve_extension cfg w data fs =
     (if \<not> truthy (ADMIN_RESET_KEY cfg) then
        ((Error ''Extension approval not configured'', 403), fs)
      else
        (case data of
           Aborts code \<Rightarrow> ((Aborted, code), fs)
         | Object d \<Rightarrow>
             (let key = field_get (json_key d) [] in
              if (case ADMIN_RESET_KEY cfg of None \<Rightarrow> True | Some secret \<Rightarrow> \<not> field_eq key secret)
              then ((Error ''Invalid key'', 403), fs)
              else
                (let rid = text_of (json_request_id d) in
                 case int_of_arg 10 (json_queries_granted d) of
                   Inl err \<Rightarrow> ((InternalServerError, 500), fs)
                 | Inr granted \<Rightarrow>
                     (case get_request_by_id (extension_requests fs) rid of
                        None \<Rightarrow> ((Error ''Request not found'', 404), fs)
                      | Some ext_request \<Rightarrow>
                          (let ledger' = approve_request w (extension_requests fs) rid granted;
                               approvals = (case approved_extensions fs of
                                              Absent \<Rightarrow> Some Map.empty
                                            | f \<Rightarrow> (case json_load f of
                                                       Inr a \<Rightarrow> a | Inl e \<Rightarrow> Some Map.empty))
                           in case approvals of
                                None \<Rightarrow>
                                  ((InternalServerError, 500), fs\<lparr>extension_requests := ledger'\<rparr>)
                              | Some m \<Rightarrow>
                                  ((Success (''Extension approved: '' @ str_int granted @
                                             '' additional queries granted'')
                                      (session_id ext_request), 200),
                                   \<lparr>extension_requests = ledger',
                                    approved_extensions = Approvals
                                      (m(session_id ext_request \<mapsto>
                                         \<lparr>grant_queries_granted = granted,
                                          grant_approved_at = now_isoformat_app w,
                                          grant_request_id = rid,
                                          grant_email = email ext_request\<rparr>))\<rparr>)))))
         | _ \<Rightarrow> ((InternalServerError, 500), fs)))"

definition deny_extension ::
  "config \<Rightarrow> world \<Rightarrow> admin_json get_json \<Rightarrow> files \<Rightarrow> response \<times> files" where
  "deny_extension cfg w data fs =
     (if \<not> truthy (ADMIN_RESET_KEY cfg) then
        ((Error ''Extension denial not configured'', 403), fs)
      else
        (case data of
           Aborts code \<Rightarrow> ((Aborted, code), fs)
         | Object d \<Rightarrow>
             (let key = field_get (json_key d) [] in
              if (case ADMIN_RESET_KEY cfg of None \<Rightarrow> True | Some secret \<Rightarrow> \<not> field_eq key secret)
              then ((Error ''Invalid key'', 403), fs)
              else
                (let rid = text_of (json_request_id d)
                 in case get_request_by_id (extension_requests fs) rid of
                      None \<Rightarrow> ((Error ''Request not found'', 404), fs)
                    | Some ext_request \<Rightarrow>
                        ((Success ''Extension request denied'' (session_id ext_request), 200),
                         fs\<lparr>extension_requests := deny_request w (extension_requests fs) rid\<rparr>)))
         | _ \<Rightarrow> ((InternalServerError, 500), fs)))"

section \<open>Sequential execution\<close>

text \<open>
  The files a deployment can hold: it starts with neither file, and every request is
  handled to its end before the next. The session of a chat call comes from the
  client's cookie and is not constrained.
\<close>

inductive reachable :: "config \<Rightarrow> files \<Rightarrow> bool" for cfg :: config where
  start: "reachable cfg \<lparr>extension_requests = None, approved_extensions = Absent\<rparr>"
| chat_step: "reachable cfg fs \<Longrightarrow> chat cfg w data s fs = (r, s', fs') \<Longrightarrow> reachable cfg fs'"
| approve_step: "reachable cfg fs \<Longrightarrow> approve_extension cfg w adata fs = (r, fs') \<Longrightarrow> reachable cfg fs'"
| deny_step: "reachable cfg fs \<Longrightarrow> deny_extension cfg w adata fs = (r, fs') \<Longrightarrow> reachable cfg fs'"

definition pending_for :: "ledger \<Rightarrow> string \<Rightarrow> ExtensionRequest list" where
  "pending_for file sid =
     filter (\<lambda>r. session_id r = sid \<and> status r = ''pending'') (records_of file)"

section \<open>Notions used to state the properties\<close>

definition is_limit_reached :: "body \<Rightarrow> bool" where
  \<comment> \<open>the two responses with error \<open>limit_reached\<close>\<close>
  "is_limit_reached b =
     (case b of LimitReachedExtension _ _ _ \<Rightarrow> True | LimitReached _ _ _ \<Rightarrow> True | _ \<Rightarrow> False)"

text \<open>
  The outcomes of \<open>request.get_json()\<close> from which \<open>chat\<close> reads the message without
  an exception: \<open>get_json\<close> returns, and the value is falsy, or a string or array
  without \<open>'message'\<close>, or an object whose \<open>message\<close> is missing or a string.
\<close>

definition readable :: "chat_json get_json \<Rightarrow> bool" where
  "readable data =
     (case data of
        Falsy \<Rightarrow> True
      | Sequence has_message \<Rightarrow> \<not> has_message
      | Object d \<Rightarrow> json_message d \<noteq> NotText
      | _ \<Rightarrow> False)"

text \<open>The record that \<open>create_request\<close> builds for a session and an address.\<close>

definition new_request :: "world \<Rightarrow> string \<Rightarrow> string \<Rightarrow> ExtensionRequest" where
  "new_request w sid mail =
     \<lparr>session_id = sid, email = mail, timestamp = now_isoformat w, status = ''pending'',
      queries_granted = 0, approved_at = None,
      request_id = sid @ ''_'' @ str_int (now_timestamp w)\<rparr>"

text \<open>
  Successive calls of \<open>create_request\<close>, each with its own clock readings, session
  identifier and address; the result is the list of the records returned and the ledger
  after the last call. \<open>written_record\<close> is the record expected from one such call.
\<close>

fun create_requests :: "(world \<times> string \<times> string) list \<Rightarrow> ledger \<Rightarrow> ExtensionRequest list \<times> ledger" where
  "create_requests [] file = ([], file)"
| "create_requests ((w, sid, mail) # cs) file =
     (let (r, file1) = create_request w file sid mail;
          (rs, file2) = create_requests cs file1
      in (r # rs, file2))"

definition written_record :: "world \<times> string \<times> string \<Rightarrow> ExtensionRequest" where
  "written_record c = (case c of (w, sid, mail) \<Rightarrow>
     \<lparr>session_id = sid, email = mail, timestamp = now_isoformat w, status = ''pending'',
      queries_granted = 0, approved_at = None,
      request_id = sid @ ''_'' @ str_int (now_timestamp w)\<rparr>)"

text \<open>A listing is newest first when timestamps never increase along it.\<close>

definition newest_first :: "ExtensionRequest list \<Rightarrow> bool" where
  "newest_first rs = sorted_wrt (\<lambda>a b. timestamp a \<ge> timestamp b) rs"

section \<open>Example inputs\<close>

definition example_config :: config where
  "example_config =
     \<lparr>MAX_QUERIES_PER_SESSION = 2, MAX_QUERY_LENGTH = 500, ADMIN_RESET_KEY = Some ''secret''\<rparr>"

definition example_world :: world where
  "example_world =
     \<lparr>uuid4 = ''0f8fad5b-d9cb-469f-a165-70867728950e'',
      now_isoformat = ''2026-01-05T10:00:00.000001'',
      now_timestamp = 1767607200,
      now_isoformat_app = ''2026-01-05T10:00:00.000245'',
      re_findall = (\<lambda>t. if t = ''reach me at a@b.com'' then [''a@b.com''] else []),
      re_sub_patterns = (\<lambda>t. if t = ''system:'' then [] else t),
      classify_intent = (\<lambda>m. if m = ''weather?'' then Inr ''OUT_OF_SCOPE'' else Inr ''IN_SCOPE''),
      get_refusal_response = ''I only discuss professional topics.'',
      log_interaction = (\<lambda>sid m r f. None),
      load_persona = Inr ''You are a helpful assistant.'',
      chat_completion = (\<lambda>ms. Inr ''An answer.''),
      environ_SMTP_PORT = Unset\<rparr>"

definition example_session :: "int \<Rightarrow> session" where
  "example_session n =
     \<lparr>sess_query_count = n, sess_conversation = [], sess_session_id = Some ''0f8fad5b'',
      sess_extension_requested = False, sess_extension_request_id = None\<rparr>"

definition example_grant :: ApprovalGrant where
  "example_grant =
     \<lparr>grant_queries_granted = 5, grant_approved_at = ''2026-01-04T09:00:00'',
      grant_request_id = Some ''0f8fad5b_1767520800'', grant_email = ''a@b.com''\<rparr>"

definition example_files_granted :: files where
  "example_files_granted =
     \<lparr>extension_requests = None,
      approved_extensions = Approvals [''0f8fad5b'' \<mapsto> example_grant]\<rparr>"

definition empty_files :: files where
  "empty_files = \<lparr>extension_requests = None, approved_extensions = Absent\<rparr>"

definition example_request :: ExtensionRequest where
  "example_request =
     \<lparr>session_id = ''0f8fad5b'', email = ''a@b.com'', timestamp = ''2026-01-05T10:00:00.000001'',
      status = ''pending'', queries_granted = 0, approved_at = None,
      request_id = ''0f8fad5b_1767607200''\<rparr>"

definition pending_files :: files where
  "pending_files = \<lparr>extension_requests = Some [example_request], approved_extensions = Absent\<rparr>"

definition admin_body :: "string \<Rightarrow> string \<Rightarrow> int_arg \<Rightarrow> admin_json" where
  "admin_body k rid q = \<lparr>json_key = Text k, json_request_id = Text rid, json_queries_granted = q\<rparr>"

definition approved_files :: files where
  "approved_files = snd (approve_extension example_config example_world
     (Object (admin_body ''secret'' ''0f8fad5b_1767607200'' (IntOf 5))) pending_files)"

definition reapproved_files :: files where
  "reapproved_files = snd (approve_extension example_config example_world
     (Object (admin_body ''secret'' ''0f8fad5b_1767607200'' (IntOf 3))) approved_files)"

definition denied_files :: files where
  "denied_files = snd (deny_extension example_config example_world
     (Object (admin_body ''secret'' ''0f8fad5b_1767607200'' Unset)) pending_files)"

definition denied_after_approval :: files where
  "denied_after_approval = snd (deny_extension example_config example_world
     (Object (admin_body ''secret'' ''0f8fad5b_1767607200'' Unset)) approved_files)"

definition world_at :: "string \<Rightarrow> int \<Rightarrow> world" where
  "world_at stamp epoch = example_world\<lparr>now_isoformat := stamp, now_timestamp := epoch\<rparr>"

definition example_creates :: "(world \<times> string \<times> string) list" where
  "example_creates =
     [(world_at ''2026-01-05T10:00:00.000001'' 1767607200, ''0f8fad5b'', ''a@b.com''),
      (world_at ''2026-01-07T08:30:00'' 1767774600, ''7c9e6679'', ''c@d.org''),
      (world_at ''2026-01-06T23:59:59.999999'' 1767743999, ''16fd2706'', ''e@f.net'')]"

definition after_request :: "response \<times> session \<times> files" where
  "after_request = chat example_config example_world
     (Object \<lparr>json_message = Text ''reach me at a@b.com''\<rparr>) (example_session 2) empty_files"

definition files_after_denial :: files where
  "files_after_denial = snd (deny_extension example_config example_world
     (Object (admin_body ''secret'' ''0f8fad5b_1767607200'' Unset)) (snd (snd after_request)))"

definition say :: "string \<Rightarrow> chat_json get_json" where
  "say m = Object \<lparr>json_message = Text m\<rparr>"

definition retry_world :: world where
  "retry_world = world_at ''2026-01-06T09:00:00'' 1767690000"

definition retried_files :: files where
  "retried_files = snd (snd (chat example_config retry_world (say ''reach me at a@b.com'')
     (fst (snd after_request)) denied_files))"

section \<open>Auxiliary facts\<close>

lemmas example_defs = example_config_def example_world_def example_session_def
  example_grant_def example_files_granted_def empty_files_def

lemmas handler_defs = chat_def get_max_queries_for_session_def get_session_id_def
  effective_limit_def json_load_def get_query_count_def chat_limit_reached_def
  limit_reached_default_def chat_admitted_def chat_filtered_def chat_conversation_def
  increment_query_count_def add_to_conversation_def get_conversation_history_def
  sanitize_input_def extract_email_def truthy_def has_pending_request_def create_request_def
  records_of_def is_limit_reached_def int_of_arg_def readable_def Let_def

lemma get_max_queries_eq:
  "get_max_queries_for_session cfg w fs s =
     (effective_limit cfg (approved_extensions fs) (fst (get_session_id w s)),
      snd (get_session_id w s))"
  by (simp add: get_max_queries_for_session_def split: prod.splits)

lemma get_session_id_again:
  "get_session_id w (snd (get_session_id w s)) = get_session_id w s"
  by (simp add: get_session_id_def split: option.splits)

lemma get_session_id_count [simp]:
  "sess_query_count (snd (get_session_id w s)) = sess_query_count s"
  by (simp add: get_session_id_def split: option.splits)

lemma chat_eq:
  "chat cfg w data s fs =
     (if effective_limit cfg (approved_extensions fs) (fst (get_session_id w s))
           \<le> sess_query_count s
      then chat_limit_reached w data (sess_query_count s)
             (effective_limit cfg (approved_extensions fs) (fst (get_session_id w s)))
             (fst (get_session_id w s)) (snd (get_session_id w s)) fs
      else chat_admitted cfg w data (fst (get_session_id w s)) (snd (get_session_id w s)) fs)"
  by (simp add: chat_def get_max_queries_eq get_query_count_def get_session_id_again Let_def)

lemma append_ledger_neq: "Some (records_of led @ [r]) \<noteq> led"
  by (cases led) (simp_all add: records_of_def)

lemma chat_limit_reached_response:
  "(is_limit_reached (fst (fst (chat_limit_reached w data c m sid s fs))) \<and>
    snd (fst (chat_limit_reached w data c m sid s fs)) = 429) \<or>
   (\<exists>code. fst (chat_limit_reached w data c m sid s fs) = (Aborted, code)) \<or>
   fst (chat_limit_reached w data c m sid s fs) = (InternalServerError, 500)"
  by (simp add: chat_limit_reached_def limit_reached_default_def is_limit_reached_def Let_def
      create_request_def split: get_json.splits field.splits option.splits sum.splits)

lemma chat_limit_reached_429:
  assumes "readable data"
    and "environ_SMTP_PORT w \<noteq> NoInt \<or>
         extension_requests (snd (snd (chat_limit_reached w data c m sid s fs))) =
           extension_requests fs"
  shows "is_limit_reached (fst (fst (chat_limit_reached w data c m sid s fs))) \<and>
         snd (fst (chat_limit_reached w data c m sid s fs)) = 429"
  using assms append_ledger_neq [of "extension_requests fs"]
  by (auto simp: chat_limit_reached_def limit_reached_default_def is_limit_reached_def Let_def
      create_request_def readable_def int_of_arg_def
      split: get_json.splits field.splits option.splits sum.splits int_arg.splits if_splits)

lemma chat_filtered_not_limit:
  "chat_filtered cfg w m sid s fs = Some r \<Longrightarrow> \<not> is_limit_reached (fst (fst r))"
  by (auto simp: chat_filtered_def is_limit_reached_def Let_def
      split: sum.splits option.splits if_splits prod.splits)

lemma chat_conversation_not_limit:
  "\<not> is_limit_reached (fst (fst (chat_conversation cfg w m sid s fs)))"
  by (simp add: chat_conversation_def is_limit_reached_def Let_def
      split: sum.splits option.splits prod.splits)

lemma chat_admitted_not_limit:
  "\<not> is_limit_reached (fst (fst (chat_admitted cfg w data sid s fs)))"
  using chat_filtered_not_limit chat_conversation_not_limit
  by (auto simp: chat_admitted_def is_limit_reached_def Let_def
      split: get_json.splits field.splits option.splits)

lemmas example_defs2 = example_defs example_request_def pending_files_def admin_body_def

lemma str_int_5: "str_int 5 = ''5''" "str_int 3 = ''3''" "str_int 10 = ''10''" "str_int 2 = ''2''"
  by (simp_all add: str_int_def str_nat.simps)

lemmas admin_defs = approve_extension_def deny_extension_def get_request_by_id_def
  approve_request_def deny_request_def truthy_def json_load_def field_get_def field_eq_def
  text_of_def int_of_arg_def Let_def

lemma find_update_first:
  "find p rs = Some r \<Longrightarrow> p (f r) \<Longrightarrow> find p (update_first p f rs) = Some (f r)"
  by (induction rs) (auto split: if_splits)

lemma update_first_split:
  "find p rs = Some r \<Longrightarrow>
   \<exists>pre post. rs = pre @ r # post \<and> (\<forall>x\<in>set pre. \<not> p x) \<and> p r \<and>
     update_first p f rs = pre @ f r # post"
proof (induction rs)
  case Nil
  then show ?case by simp
next
  case (Cons a rs)
  show ?case
  proof (cases "p a")
    case True
    with Cons.prems have "a = r" by simp
    with True show ?thesis by (intro exI [of _ "[]"] exI [of _ rs]) simp
  next
    case False
    with Cons obtain pre post where
      "rs = pre @ r # post" "\<forall>x\<in>set pre. \<not> p x" "p r" "update_first p f rs = pre @ f r # post"
      by auto
    with False show ?thesis by (intro exI [of _ "a # pre"] exI [of _ post]) simp
  qed
qed



lemma approve_extension_success:
  assumes "approve_extension cfg w (Object d) fs = ((Success msg sid, code), fs')"
  shows "\<exists>r g. int_of_arg 10 (json_queries_granted d) = Inr g \<and>
           get_request_by_id (extension_requests fs) (text_of (json_request_id d)) = Some r \<and>
           session_id r = sid \<and>
           extension_requests fs' =
             approve_request w (extension_requests fs) (text_of (json_request_id d)) g \<and>
           approved_extensions fs' = Approvals
             ((case approved_extensions fs of Approvals m \<Rightarrow> m | _ \<Rightarrow> Map.empty)
               (sid \<mapsto> \<lparr>grant_queries_granted = g,
                          grant_approved_at = now_isoformat_app w,
                          grant_request_id = text_of (json_request_id d),
                          grant_email = email r\<rparr>))"
  using assms
  by (auto simp: approve_extension_def Let_def json_load_def
      split: if_splits option.splits approvals_file.splits sum.splits)

lemma get_request_by_id_approved:
  assumes "get_request_by_id file rid = Some r"
  shows "get_request_by_id (approve_request w file rid g) rid =
     Some (r\<lparr>status := ''approved'', queries_granted := g, approved_at := Some (now_isoformat w)\<rparr>)"
proof -
  from assms obtain rs where f: "file = Some rs"
    and r: "find (\<lambda>r. Some (request_id r) = rid) rs = Some r"
    by (auto simp: get_request_by_id_def split: option.splits)
  from r have "Some (request_id r) = rid"
    by (induction rs) (auto split: if_splits)
  with r show ?thesis
    unfolding f by (simp add: get_request_by_id_def approve_request_def find_update_first)
qed

lemma deny_extension_success:
  assumes "deny_extension cfg w (Object d) fs = ((Success msg sid, code), fs')"
  shows "\<exists>r. get_request_by_id (extension_requests fs) (text_of (json_request_id d)) = Some r \<and>
           session_id r = sid \<and>
           fs' = fs\<lparr>extension_requests :=
                    deny_request w (extension_requests fs) (text_of (json_request_id d))\<rparr>"
  using assms
  by (auto simp: deny_extension_def Let_def split: if_splits option.splits)

lemma create_requests_eq:
  "create_requests cs led =
     (map written_record cs, if cs = [] then led else Some (records_of led @ map written_record cs))"
proof (induction cs arbitrary: led)
  case Nil
  then show ?case by simp
next
  case (Cons c cs)
  obtain w sid mail where c: "c = (w, sid, mail)" by (cases c)
  show ?case
    unfolding c by (simp add: Cons.IH create_request_def written_record_def records_of_def Let_def)
qed

lemma newest_first_py_sort: "newest_first (py_sort_reverse timestamp rs)"
proof -
  have "sorted_wrt (\<lambda>a b. timestamp a \<le> timestamp b) (sort_key timestamp (rev rs))"
    using sorted_sort_key [of timestamp "rev rs"] by (simp add: sorted_map)
  then show ?thesis
    by (simp add: newest_first_def py_sort_reverse_def sorted_wrt_rev)
qed

lemma newest_first_Nil: "newest_first []"
  by (simp add: newest_first_def)

lemma mset_py_sort: "mset (py_sort_reverse f rs) = mset rs"
  by (simp add: py_sort_reverse_def)

lemma get_all_requests_props:
  "newest_first (get_all_requests led flt) \<and>
   mset (get_all_requests led flt) =
     mset (filter (\<lambda>r. flt = ''all'' \<or> status r = flt) (records_of led))"
  by (cases led)
     (simp_all add: get_all_requests_def records_of_def newest_first_py_sort mset_py_sort
        newest_first_Nil)

lemma get_pending_requests_props:
  "newest_first (get_pending_requests led) \<and>
   mset (get_pending_requests led) =
     mset (filter (\<lambda>r. status r = ''pending'') (records_of led))"
  by (cases led)
     (simp_all add: get_pending_requests_def records_of_def newest_first_py_sort mset_py_sort
        newest_first_Nil)

lemma str_int_epoch: "str_int 1767607200 = ''1767607200''"
  by (simp add: str_int_def str_nat.simps)

lemma after_request_eq:
  "after_request =
     ((LimitReachedExtension received_message 2 2, 429),
      (example_session 2)\<lparr>sess_extension_requested := True,
         sess_extension_request_id := Some ''0f8fad5b_1767607200''\<rparr>,
      pending_files)"
  by (simp add: after_request_def example_defs2 handler_defs strip_def isspace_def str_int_epoch)

lemma files_after_denial_eq:
  "files_after_denial = denied_files"
  by (simp add: files_after_denial_def denied_files_def after_request_eq)

lemma pending_not_limit_message: "pending_message \<noteq> limit_message n"
  by (simp add: pending_message_def limit_message_def)

lemma get_max_queries_count [simp]:
  "sess_query_count (snd (get_max_queries_for_session cfg w fs s)) = sess_query_count s"
  by (simp add: get_max_queries_eq)







lemma has_pending_request_iff:
  "has_pending_request led sid \<longleftrightarrow>
     (\<exists>r\<in>set (records_of led). session_id r = sid \<and> status r = ''pending'')"
  by (cases led) (simp_all add: has_pending_request_def records_of_def list_ex_iff)

lemma has_pending_request_pending_for:
  "has_pending_request led sid \<longleftrightarrow> pending_for led sid \<noteq> []"
  by (simp add: has_pending_request_iff pending_for_def filter_empty_conv)

lemma chat_limit_reached_ledger:
  "extension_requests (snd (snd (chat_limit_reached w data c mx sid s fs))) =
     (case data of
        Object d \<Rightarrow>
          (case json_message d of
             Text m \<Rightarrow>
               (case extract_email w (strip m) of
                  None \<Rightarrow> extension_requests fs
                | Some e \<Rightarrow>
                    if e \<noteq> [] \<and> \<not> has_pending_request (extension_requests fs) sid
                    then Some (records_of (extension_requests fs) @ [new_request w sid e])
                    else extension_requests fs)
           | _ \<Rightarrow> extension_requests fs)
      | _ \<Rightarrow> extension_requests fs)"
  by (simp add: chat_limit_reached_def limit_reached_default_def Let_def create_request_def
      new_request_def truthy_def
      split: get_json.splits field.splits option.splits sum.splits)

lemma chat_filtered_files:
  "chat_filtered cfg w um sid s fs = Some r \<Longrightarrow> snd (snd r) = fs"
  by (auto simp: chat_filtered_def Let_def split: sum.splits if_splits option.splits prod.splits)

lemma chat_conversation_files:
  "snd (snd (chat_conversation cfg w um sid s fs)) = fs"
  by (simp add: chat_conversation_def Let_def split: sum.splits option.splits prod.splits)

lemma chat_admitted_files:
  "snd (snd (chat_admitted cfg w data sid s fs)) = fs"
  using chat_filtered_files [of cfg w _ sid s fs] chat_conversation_files [of cfg w _ sid s fs]
  by (auto simp: chat_admitted_def Let_def split: get_json.splits field.splits option.splits)

lemma chat_approvals_unchanged:
  "approved_extensions (snd (snd (chat cfg w data s fs))) = approved_extensions fs"
  by (simp add: chat_eq chat_admitted_files chat_limit_reached_def limit_reached_default_def
      Let_def create_request_def
      split: get_json.splits field.splits option.splits sum.splits)

lemma pending_for_append:
  "pending_for (Some (records_of led @ [new_request w sid e])) sid' =
     pending_for led sid' @ (if sid' = sid then [new_request w sid e] else [])"
  by (auto simp: pending_for_def records_of_def new_request_def)

lemma chat_pending_for:
  assumes "length (pending_for (extension_requests fs) sid') \<le> 1"
  shows "length (pending_for (extension_requests (snd (snd (chat cfg w data s fs)))) sid') \<le> 1"
proof (cases "effective_limit cfg (approved_extensions fs) (fst (get_session_id w s))
           \<le> sess_query_count s")
  case False
  then show ?thesis using assms by (simp add: chat_eq chat_admitted_files)
next
  case True
  let ?sid = "fst (get_session_id w s)"
  have "pending_for (extension_requests fs) ?sid = []"
    if "\<not> has_pending_request (extension_requests fs) ?sid"
    using that by (simp add: has_pending_request_pending_for)
  then show ?thesis
    using True assms
    by (auto simp: chat_eq chat_limit_reached_ledger pending_for_append
        split: get_json.splits field.splits option.splits)
qed

lemma filter_update_first_le:
  "(\<And>r. \<not> P (f r)) \<Longrightarrow> length (filter P (update_first p f rs)) \<le> length (filter P rs)"
  by (induction rs) auto

lemma approve_request_pending_for:
  "length (pending_for (approve_request w led rid g) sid) \<le> length (pending_for led sid)"
  by (cases led)
     (simp_all add: approve_request_def pending_for_def records_of_def filter_update_first_le)

lemma deny_request_pending_for:
  "length (pending_for (deny_request w led rid) sid) \<le> length (pending_for led sid)"
  by (cases led)
     (simp_all add: deny_request_def pending_for_def records_of_def filter_update_first_le)

lemma approve_extension_ledger:
  "extension_requests (snd (approve_extension cfg w data fs)) = extension_requests fs \<or>
   (\<exists>rid g. extension_requests (snd (approve_extension cfg w data fs)) =
      approve_request w (extension_requests fs) rid g)"
  by (auto simp: approve_extension_def Let_def
      split: get_json.splits option.splits sum.splits)

lemma deny_extension_ledger:
  "extension_requests (snd (deny_extension cfg w data fs)) = extension_requests fs \<or>
   (\<exists>rid. extension_requests (snd (deny_extension cfg w data fs)) =
      deny_request w (extension_requests fs) rid)"
  by (auto simp: deny_extension_def Let_def split: get_json.splits option.splits)

lemma reachable_one_pending:
  "reachable cfg fs \<Longrightarrow> length (pending_for (extension_requests fs) sid) \<le> 1"
proof (induction rule: reachable.induct)
  case start
  then show ?case by (simp add: pending_for_def records_of_def)
next
  case (chat_step fs w data s r s' fs')
  from chat_pending_for [OF chat_step.IH, of cfg w data s] chat_step.hyps(2)
  show ?case by simp
next
  case (approve_step fs w adata r fs')
  from approve_extension_ledger [of cfg w adata fs] approve_step.hyps(2)
  consider "extension_requests fs' = extension_requests fs"
    | rid g where "extension_requests fs' = approve_request w (extension_requests fs) rid g"
    by auto
  then show ?case
  proof cases
    case 1
    with approve_step.IH show ?thesis by simp
  next
    case 2
    with approve_step.IH approve_request_pending_for [of w "extension_requests fs" rid g sid]
    show ?thesis by simp
  qed
next
  case (deny_step fs w adata r fs')
  from deny_extension_ledger [of cfg w adata fs] deny_step.hyps(2)
  consider "extension_requests fs' = extension_requests fs"
    | rid where "extension_requests fs' = deny_request w (extension_requests fs) rid"
    by auto
  then show ?case
  proof cases
    case 1
    with deny_step.IH show ?thesis by simp
  next
    case 2
    with deny_step.IH deny_request_pending_for [of w "extension_requests fs" rid sid]
    show ?thesis by simp
  qed
qed

lemma str_int_retry: "str_int 1767690000 = ''1767690000''"
  by (simp add: str_int_def str_nat.simps)

lemma denied_files_eq:
  "denied_files = \<lparr>extension_requests =
       Some [example_request\<lparr>status := ''denied'',
               approved_at := Some ''2026-01-05T10:00:00.000001''\<rparr>],
     approved_extensions = Absent\<rparr>"
  by (simp add: denied_files_def example_defs2 admin_defs)

lemma deny_pending_files:
  "deny_extension example_config example_world
     (Object (admin_body ''secret'' ''0f8fad5b_1767607200'' Unset)) pending_files =
   ((Success ''Extension request denied'' ''0f8fad5b'', 200), denied_files)"
  by (simp add: denied_files_def example_defs2 admin_defs)

lemma retried_files_eq:
  "chat example_config retry_world (say ''reach me at a@b.com'')
     (fst (snd after_request)) denied_files =
   ((LimitReachedExtension received_message 2 2, 429),
    (example_session 2)\<lparr>sess_extension_requested := True,
       sess_extension_request_id := Some ''0f8fad5b_1767690000''\<rparr>,
    \<lparr>extension_requests =
       Some [example_request\<lparr>status := ''denied'',
               approved_at := Some ''2026-01-05T10:00:00.000001''\<rparr>,
             new_request retry_world ''0f8fad5b'' ''a@b.com''],
     approved_extensions = Absent\<rparr>)"
  by (simp add: after_request_eq denied_files_eq retry_world_def world_at_def say_def
      new_request_def example_defs2 handler_defs strip_def isspace_def str_int_retry)

lemma chat_limit_reached_plain:
  "fst (chat_limit_reached w data c mx sid s fs) = (LimitReached msg c' m', code) \<Longrightarrow>
   chat_limit_reached w data c mx sid s fs = limit_reached_default c mx s fs"
  by (auto simp: chat_limit_reached_def limit_reached_default_def Let_def create_request_def
      split: get_json.splits field.splits option.splits sum.splits if_splits)

lemma chat_limit_reached_default:
  "readable data \<Longrightarrow>
   extension_requests (snd (snd (chat_limit_reached w data c mx sid s fs))) =
     extension_requests fs \<Longrightarrow>
   chat_limit_reached w data c mx sid s fs = limit_reached_default c mx s fs"
  using append_ledger_neq [of "extension_requests fs"]
  by (auto simp: chat_limit_reached_def limit_reached_default_def Let_def create_request_def
      readable_def split: get_json.splits field.splits option.splits sum.splits if_splits)





section \<open>One pending request per session\<close>

text \<open>
  Claim C1. Let a session be at its limit and let the message of a chat call contain an
  email address (\<open>extract_email\<close> finds a non-empty match in the stripped message). If the
  ledger holds a record with the session's identifier and status \<open>pending\<close>, the call
  leaves the ledger as it is; if it holds none, whatever denied or approved records of
  the session it holds, the call appends one new pending record of the session with
  that address. Hence in every state of the files that a sequence of chat, approval and
  denial calls, handled one after the other from a fresh deployment, can produce, each
  session identifier has at most one record with status \<open>pending\<close>. The record is
  written before the SMTP configuration is read, so the ledger is the same when the call
  then fails on an unconvertible \<open>SMTP_PORT\<close>.
\<close>

theorem one_pending_request_per_session:
  "(\<forall>d m. fst (get_max_queries_for_session cfg w fs s) \<le> get_query_count s \<and>
       data = Object d \<and> json_message d = Text m \<and> truthy (extract_email w (strip m)) \<longrightarrow>
       ((\<exists>r\<in>set (records_of (extension_requests fs)).
            session_id r = fst (get_session_id w s) \<and> status r = ''pending'') \<longrightarrow>
          extension_requests (snd (snd (chat cfg w data s fs))) = extension_requests fs) \<and>
       (\<not> (\<exists>r\<in>set (records_of (extension_requests fs)).
            session_id r = fst (get_session_id w s) \<and> status r = ''pending'') \<longrightarrow>
          (\<exists>e. extract_email w (strip m) = Some e \<and>
               extension_requests (snd (snd (chat cfg w data s fs))) =
                 Some (records_of (extension_requests fs) @
                       [new_request w (fst (get_session_id w s)) e])))) \<and>
   (reachable cfg fs0 \<longrightarrow> (\<forall>sid. length (pending_for (extension_requests fs0) sid) \<le> 1))"
proof (intro conjI allI impI)
  fix d m
  assume h: "fst (get_max_queries_for_session cfg w fs s) \<le> get_query_count s \<and>
       data = Object d \<and> json_message d = Text m \<and> truthy (extract_email w (strip m))"
  let ?sid = "fst (get_session_id w s)"
  from h have c: "extension_requests (snd (snd (chat cfg w data s fs))) =
      extension_requests (snd (snd (chat_limit_reached w data (sess_query_count s)
        (effective_limit cfg (approved_extensions fs) ?sid) ?sid (snd (get_session_id w s)) fs)))"
    by (simp add: chat_eq get_max_queries_eq get_query_count_def)
  from h obtain e where e: "extract_email w (strip m) = Some e" "e \<noteq> []"
    by (auto simp: truthy_def split: option.splits)
  {
    assume "\<exists>r\<in>set (records_of (extension_requests fs)).
            session_id r = ?sid \<and> status r = ''pending''"
    then have "has_pending_request (extension_requests fs) ?sid"
      by (simp add: has_pending_request_iff)
    with h e show "extension_requests (snd (snd (chat cfg w data s fs))) = extension_requests fs"
      unfolding c by (simp add: chat_limit_reached_ledger)
  }
  {
    assume "\<not> (\<exists>r\<in>set (records_of (extension_requests fs)).
            session_id r = ?sid \<and> status r = ''pending'')"
    then have "\<not> has_pending_request (extension_requests fs) ?sid"
      by (simp add: has_pending_request_iff)
    with h e show "\<exists>e. extract_email w (strip m) = Some e \<and>
               extension_requests (snd (snd (chat cfg w data s fs))) =
                 Some (records_of (extension_requests fs) @ [new_request w ?sid e])"
      unfolding c by (simp add: chat_limit_reached_ledger)
  }
next
  fix sid
  assume "reachable cfg fs0"
  then show "length (pending_for (extension_requests fs0) sid) \<le> 1"
    by (rule reachable_one_pending)
qed

theorem one_pending_request_per_session_witness:
  "extension_requests retried_files =
     Some [example_request\<lparr>status := ''denied'',
             approved_at := Some ''2026-01-05T10:00:00.000001''\<rparr>,
           new_request retry_world ''0f8fad5b'' ''a@b.com''] \<and>
   extension_requests (snd (snd (chat example_config retry_world (say ''reach me at a@b.com'')
     (example_session 2) pending_files))) = extension_requests pending_files \<and>
   reachable example_config retried_files \<and>
   length (pending_for (extension_requests retried_files) ''0f8fad5b'') \<le> 1"
proof -
  let ?s = "fst (snd after_request)"
  let ?data = "say ''reach me at a@b.com''"
  have h1: "fst (get_max_queries_for_session example_config retry_world denied_files ?s)
        \<le> get_query_count ?s \<and>
      ?data = Object \<lparr>json_message = Text ''reach me at a@b.com''\<rparr> \<and>
      json_message \<lparr>json_message = Text ''reach me at a@b.com''\<rparr> = Text ''reach me at a@b.com'' \<and>
      truthy (extract_email retry_world (strip ''reach me at a@b.com''))"
    by (simp add: after_request_eq denied_files_eq retry_world_def world_at_def say_def
        example_defs2 handler_defs strip_def isspace_def)
  have n1: "\<not> (\<exists>r\<in>set (records_of (extension_requests denied_files)).
      session_id r = fst (get_session_id retry_world ?s) \<and> status r = ''pending'')"
    by (simp add: after_request_eq denied_files_eq records_of_def example_defs2 get_session_id_def)
  have h2: "fst (get_max_queries_for_session example_config retry_world pending_files
          (example_session 2)) \<le> get_query_count (example_session 2) \<and>
      ?data = Object \<lparr>json_message = Text ''reach me at a@b.com''\<rparr> \<and>
      json_message \<lparr>json_message = Text ''reach me at a@b.com''\<rparr> = Text ''reach me at a@b.com'' \<and>
      truthy (extract_email retry_world (strip ''reach me at a@b.com''))"
    by (simp add: retry_world_def world_at_def say_def
        example_defs2 handler_defs strip_def isspace_def)
  have p2: "\<exists>r\<in>set (records_of (extension_requests pending_files)).
      session_id r = fst (get_session_id retry_world (example_session 2)) \<and> status r = ''pending''"
    by (simp add: records_of_def example_defs2 get_session_id_def)
  have r0: "reachable example_config empty_files"
    unfolding empty_files_def by (rule reachable.start)
  have r1: "reachable example_config pending_files"
    by (rule reachable.chat_step [OF r0 after_request_eq [unfolded after_request_def]])
  have r2: "reachable example_config denied_files"
    by (rule reachable.deny_step [OF r1 deny_pending_files])
  have r3: "reachable example_config retried_files"
    using reachable.chat_step [OF r2 retried_files_eq]
    by (simp add: retried_files_def retried_files_eq)
  note t1 = one_pending_request_per_session
    [of example_config retry_world denied_files ?s ?data retried_files]
  note t2 = one_pending_request_per_session
    [of example_config retry_world pending_files "example_session 2" ?data retried_files]
  from t1 r3 have 4: "length (pending_for (extension_requests retried_files) ''0f8fad5b'') \<le> 1"
    by blast
  from t2 h2 p2 have 2: "extension_requests (snd (snd (chat example_config retry_world ?data
     (example_session 2) pending_files))) = extension_requests pending_files"
    by blast
  from t1 h1 n1 obtain e where
    "extract_email retry_world (strip ''reach me at a@b.com'') = Some e"
    "extension_requests (snd (snd (chat example_config retry_world ?data ?s denied_files))) =
       Some (records_of (extension_requests denied_files) @
             [new_request retry_world (fst (get_session_id retry_world ?s)) e])"
    by blast
  then have 1: "extension_requests retried_files =
     Some [example_request\<lparr>status := ''denied'',
             approved_at := Some ''2026-01-05T10:00:00.000001''\<rparr>,
           new_request retry_world ''0f8fad5b'' ''a@b.com'']"
    by (simp add: retried_files_def after_request_eq denied_files_eq records_of_def
        get_session_id_def example_session_def retry_world_def world_at_def example_world_def
        extract_email_def strip_def isspace_def)
  from 1 2 r3 4 show ?thesis by simp
qed

section \<open>The effective limit and admission\<close>

text \<open>
  Claim C2. The limit that \<open>get_max_queries_for_session\<close> returns for a session is the
  configured base limit plus \<open>queries_granted\<close> of the grant stored under the session's
  identifier when the approvals file holds one, and the base limit when the file holds no
  entry for the session, does not exist, cannot be read or parsed, or holds something
  other than a dictionary (the function returns a number in every case). A chat call is
  admitted, that is handled by the code after the quota check, exactly when the
  session's \<open>query_count\<close> is strictly below that limit, and is handled by the
  limit-reached branch otherwise. The admitted code never answers \<open>limit_reached\<close>; so
  a \<open>limit_reached\<close> response is only given to a session at its limit, and for a body
  that the handler reads without an exception the response is \<open>limit_reached\<close> exactly
  when the session is not admitted.
\<close>

theorem effective_limit_and_admission:
  "(let sid = fst (get_session_id w s);
        s1 = snd (get_session_id w s);
        limit = fst (get_max_queries_for_session cfg w fs s)
    in (\<forall>m g. approved_extensions fs = Approvals m \<longrightarrow> m sid = Some g \<longrightarrow>
              limit = MAX_QUERIES_PER_SESSION cfg + grant_queries_granted g) \<and>
       (\<forall>m. approved_extensions fs = Approvals m \<longrightarrow> m sid = None \<longrightarrow>
              limit = MAX_QUERIES_PER_SESSION cfg) \<and>
       (approved_extensions fs = Absent \<or> approved_extensions fs = Corrupt \<or>
        approved_extensions fs = NotObject \<longrightarrow>
              limit = MAX_QUERIES_PER_SESSION cfg) \<and>
       (get_query_count s < limit \<longrightarrow>
          chat cfg w data s fs = chat_admitted cfg w data sid s1 fs) \<and>
       (\<not> get_query_count s < limit \<longrightarrow>
          chat cfg w data s fs =
            chat_limit_reached w data (get_query_count s) limit sid s1 fs) \<and>
       \<not> is_limit_reached (fst (fst (chat_admitted cfg w data sid s1 fs))) \<and>
       (is_limit_reached (fst (fst (chat cfg w data s fs))) \<longrightarrow> \<not> get_query_count s < limit) \<and>
       (readable data \<and> environ_SMTP_PORT w \<noteq> NoInt \<longrightarrow>
          (\<not> is_limit_reached (fst (fst (chat cfg w data s fs))) \<longleftrightarrow>
           get_query_count s < limit)))"
proof -
  let ?sid = "fst (get_session_id w s)" and ?s1 = "snd (get_session_id w s)"
  let ?lim = "effective_limit cfg (approved_extensions fs) ?sid"
  have adm: "\<not> is_limit_reached (fst (fst (chat_admitted cfg w data ?sid ?s1 fs)))"
    by (rule chat_admitted_not_limit)
  have lim: "is_limit_reached (fst (fst (chat_limit_reached w data (sess_query_count s) ?lim
      ?sid ?s1 fs)))" if "readable data" "environ_SMTP_PORT w \<noteq> NoInt"
    using chat_limit_reached_429 [of data w "sess_query_count s" ?lim ?sid ?s1 fs] that by simp
  have vals: "(\<forall>m g. approved_extensions fs = Approvals m \<longrightarrow> m ?sid = Some g \<longrightarrow>
              ?lim = MAX_QUERIES_PER_SESSION cfg + grant_queries_granted g) \<and>
       (\<forall>m. approved_extensions fs = Approvals m \<longrightarrow> m ?sid = None \<longrightarrow>
              ?lim = MAX_QUERIES_PER_SESSION cfg) \<and>
       (approved_extensions fs = Absent \<or> approved_extensions fs = Corrupt \<or>
        approved_extensions fs = NotObject \<longrightarrow> ?lim = MAX_QUERIES_PER_SESSION cfg)"
    by (auto simp: effective_limit_def json_load_def)
  show ?thesis
    unfolding Let_def get_max_queries_eq fst_conv get_query_count_def
    using adm lim vals by (simp add: chat_eq)
qed

theorem effective_limit_and_admission_witness:
  "fst (get_max_queries_for_session example_config example_world example_files_granted
          (example_session 6)) = 7 \<and>
   fst (get_max_queries_for_session example_config example_world empty_files
          (example_session 6)) = 2 \<and>
   \<not> is_limit_reached (fst (fst (chat example_config example_world Falsy (example_session 6)
          example_files_granted))) \<and>
   is_limit_reached (fst (fst (chat example_config example_world Falsy (example_session 7)
          example_files_granted)))"
  using effective_limit_and_admission
      [of example_world "example_session 6" example_config example_files_granted Falsy]
    effective_limit_and_admission
      [of example_world "example_session 6" example_config empty_files Falsy]
    effective_limit_and_admission
      [of example_world "example_session 7" example_config example_files_granted Falsy]
  by (simp add: example_defs handler_defs)

section \<open>The quota check comes first\<close>




section \<open>Approval\<close>

text \<open>
  Claim C3. When \<open>approve_extension\<close> succeeds for a request of session \<open>sid\<close> with
  \<open>g\<close> granted queries, the ledger record found under the request identifier has status
  \<open>approved\<close>, \<open>queries_granted = g\<close> and \<open>approved_at\<close> set to the time of the call,
  the approvals file maps \<open>sid\<close> to the grant, and the effective limit of every session
  with that identifier, whatever its \<open>query_count\<close>, is the base limit plus \<open>g\<close>. A
  later approval for the same session replaces the grant: the limit is then the base
  limit plus the later amount, not the sum.
\<close>

theorem approve_sets_grant:
  assumes "approve_extension cfg w (Object d) fs = ((Success msg sid, code), fs')"
    and "int_of_arg 10 (json_queries_granted d) = Inr g"
  shows "\<exists>r. get_request_by_id (extension_requests fs) (text_of (json_request_id d)) = Some r \<and>
           session_id r = sid \<and>
           get_request_by_id (extension_requests fs') (text_of (json_request_id d)) =
             Some (r\<lparr>status := ''approved'', queries_granted := g,
                      approved_at := Some (now_isoformat w)\<rparr>) \<and>
           (\<exists>m. approved_extensions fs' = Approvals m \<and>
                m sid = Some \<lparr>grant_queries_granted = g,
                               grant_approved_at = now_isoformat_app w,
                               grant_request_id = text_of (json_request_id d),
                               grant_email = email r\<rparr>) \<and>
           (\<forall>w' s. fst (get_session_id w' s) = sid \<longrightarrow>
                fst (get_max_queries_for_session cfg w' fs' s) = MAX_QUERIES_PER_SESSION cfg + g) \<and>
           (\<forall>w2 d2 msg2 code2 fs2 g2.
                approve_extension cfg w2 (Object d2) fs' = ((Success msg2 sid, code2), fs2) \<longrightarrow>
                int_of_arg 10 (json_queries_granted d2) = Inr g2 \<longrightarrow>
                (\<forall>w' s. fst (get_session_id w' s) = sid \<longrightarrow>
                   fst (get_max_queries_for_session cfg w' fs2 s) =
                     MAX_QUERIES_PER_SESSION cfg + g2))"
proof -
  have limit: "fst (get_max_queries_for_session cfg w' b s) = MAX_QUERIES_PER_SESSION cfg + q"
    if "approve_extension cfg v (Object e) a = ((Success t sid, c), b)"
      and "int_of_arg 10 (json_queries_granted e) = Inr q"
      and "fst (get_session_id w' s) = sid"
    for v e a t c b q w' s
    using approve_extension_success [OF that(1)] that(2,3)
    by (auto simp: get_max_queries_eq effective_limit_def json_load_def)
  from approve_extension_success [OF assms(1)] obtain r where
    r: "get_request_by_id (extension_requests fs) (text_of (json_request_id d)) = Some r" "session_id r = sid"
      "extension_requests fs' = approve_request w (extension_requests fs) (text_of (json_request_id d)) g"
      "approved_extensions fs' = Approvals
             ((case approved_extensions fs of Approvals m \<Rightarrow> m | _ \<Rightarrow> Map.empty)
               (sid \<mapsto> \<lparr>grant_queries_granted = g,
                          grant_approved_at = now_isoformat_app w,
                          grant_request_id = text_of (json_request_id d),
                          grant_email = email r\<rparr>))"
    using assms(2) by auto
  show ?thesis
  proof (intro exI [of _ r] conjI allI impI)
    show "get_request_by_id (extension_requests fs) (text_of (json_request_id d)) = Some r" by (rule r(1))
    show "session_id r = sid" by (rule r(2))
    show "get_request_by_id (extension_requests fs') (text_of (json_request_id d)) =
             Some (r\<lparr>status := ''approved'', queries_granted := g,
                      approved_at := Some (now_isoformat w)\<rparr>)"
      unfolding r(3) by (rule get_request_by_id_approved [OF r(1)])
    show "\<exists>m. approved_extensions fs' = Approvals m \<and>
                m sid = Some \<lparr>grant_queries_granted = g,
                               grant_approved_at = now_isoformat_app w,
                               grant_request_id = text_of (json_request_id d),
                               grant_email = email r\<rparr>"
      unfolding r(4) by simp
    show "fst (get_max_queries_for_session cfg w' fs' s) = MAX_QUERIES_PER_SESSION cfg + g"
      if "fst (get_session_id w' s) = sid" for w' s
      using limit [OF assms(1) assms(2) that] .
    show "fst (get_max_queries_for_session cfg w' fs2 s) = MAX_QUERIES_PER_SESSION cfg + g2"
      if "approve_extension cfg w2 (Object d2) fs' = ((Success msg2 sid, code2), fs2)"
        and "int_of_arg 10 (json_queries_granted d2) = Inr g2"
        and "fst (get_session_id w' s) = sid" for w2 d2 msg2 code2 fs2 g2 w' s
      using limit [OF that] .
  qed
qed

theorem approve_sets_grant_witness:
  "fst (approve_extension example_config example_world
          (Object (admin_body ''secret'' ''0f8fad5b_1767607200'' (IntOf 5))) pending_files) =
     (Success ''Extension approved: 5 additional queries granted'' ''0f8fad5b'', 200) \<and>
   get_request_by_id (extension_requests approved_files) (Some ''0f8fad5b_1767607200'') =
     Some (example_request\<lparr>status := ''approved'', queries_granted := 5,
             approved_at := Some ''2026-01-05T10:00:00.000001''\<rparr>) \<and>
   fst (get_max_queries_for_session example_config example_world approved_files
          (example_session 9)) = 7 \<and>
   fst (get_max_queries_for_session example_config example_world reapproved_files
          (example_session 9)) = 5"
proof -
  have a: "approve_extension example_config example_world
          (Object (admin_body ''secret'' ''0f8fad5b_1767607200'' (IntOf 5))) pending_files =
     ((Success ''Extension approved: 5 additional queries granted'' ''0f8fad5b'', 200), approved_files)"
    by (simp add: approved_files_def example_defs2 admin_defs str_int_5)
  have b: "approve_extension example_config example_world
          (Object (admin_body ''secret'' ''0f8fad5b_1767607200'' (IntOf 3))) approved_files =
     ((Success ''Extension approved: 3 additional queries granted'' ''0f8fad5b'', 200), reapproved_files)"
    by (simp add: reapproved_files_def approved_files_def example_defs2 admin_defs str_int_5)
  have g: "int_of_arg 10
      (json_queries_granted (admin_body ''secret'' ''0f8fad5b_1767607200'' (IntOf 5))) = Inr 5"
    by (simp add: admin_body_def int_of_arg_def)
  have s: "fst (get_session_id example_world (example_session 9)) = ''0f8fad5b''"
    by (simp add: get_session_id_def example_session_def)
  from approve_sets_grant [OF a g] obtain r where
    r: "get_request_by_id (extension_requests pending_files)
          (text_of (json_request_id (admin_body ''secret'' ''0f8fad5b_1767607200'' (IntOf 5)))) =
        Some r"
      "get_request_by_id (extension_requests approved_files)
          (text_of (json_request_id (admin_body ''secret'' ''0f8fad5b_1767607200'' (IntOf 5)))) =
        Some (r\<lparr>status := ''approved'', queries_granted := 5,
                approved_at := Some (now_isoformat example_world)\<rparr>)"
      "\<forall>w' s. fst (get_session_id w' s) = ''0f8fad5b'' \<longrightarrow>
          fst (get_max_queries_for_session example_config w' approved_files s) =
            MAX_QUERIES_PER_SESSION example_config + 5"
      "\<forall>w2 d2 msg2 code2 fs2 g2.
          approve_extension example_config w2 (Object d2) approved_files =
            ((Success msg2 ''0f8fad5b'', code2), fs2) \<longrightarrow>
          int_of_arg 10 (json_queries_granted d2) = Inr g2 \<longrightarrow>
          (\<forall>w' s. fst (get_session_id w' s) = ''0f8fad5b'' \<longrightarrow>
             fst (get_max_queries_for_session example_config w' fs2 s) =
               MAX_QUERIES_PER_SESSION example_config + g2)"
    by blast
  have g3: "int_of_arg 10
      (json_queries_granted (admin_body ''secret'' ''0f8fad5b_1767607200'' (IntOf 3))) = Inr 3"
    by (simp add: admin_body_def int_of_arg_def)
  from r(1) have "r = example_request"
    by (simp add: example_defs2 admin_defs)
  with r(2) have 1: "get_request_by_id (extension_requests approved_files) (Some ''0f8fad5b_1767607200'') =
     Some (example_request\<lparr>status := ''approved'', queries_granted := 5,
             approved_at := Some ''2026-01-05T10:00:00.000001''\<rparr>)"
    by (simp add: admin_body_def example_world_def text_of_def)
  from r(3) s have 2: "fst (get_max_queries_for_session example_config example_world approved_files
          (example_session 9)) = 7"
    by (simp add: example_config_def)
  from r(4) [rule_format, OF b g3 s]
  have 3: "fst (get_max_queries_for_session example_config example_world reapproved_files
          (example_session 9)) = 5"
    by (simp add: example_config_def)
  from a 1 2 3 show ?thesis by simp
qed

section \<open>Denial\<close>

text \<open>
  Claim C5. When \<open>deny_extension\<close> succeeds, the first ledger record with the given
  request identifier gets status \<open>denied\<close> and \<open>approved_at\<close> set to the time of the
  call; its other fields, every other record and the order of the records stay as they
  were. The approvals file is not written, and the effective limit of every session is
  what it was before the denial.
\<close>

theorem deny_changes_only_the_record:
  assumes "deny_extension cfg w (Object d) fs = ((Success msg sid, code), fs')"
  shows "\<exists>pre r post.
           extension_requests fs = Some (pre @ r # post) \<and>
           (\<forall>x\<in>set pre. Some (request_id x) \<noteq> text_of (json_request_id d)) \<and>
           Some (request_id r) = text_of (json_request_id d) \<and>
           session_id r = sid \<and>
           extension_requests fs' =
             Some (pre @ r\<lparr>status := ''denied'', approved_at := Some (now_isoformat w)\<rparr> # post) \<and>
           approved_extensions fs' = approved_extensions fs \<and>
           (\<forall>cfg' w' s. get_max_queries_for_session cfg' w' fs' s =
                          get_max_queries_for_session cfg' w' fs s)"
proof -
  from deny_extension_success [OF assms] obtain r where
    r: "get_request_by_id (extension_requests fs) (text_of (json_request_id d)) = Some r"
      "session_id r = sid"
      "fs' = fs\<lparr>extension_requests := deny_request w (extension_requests fs) (text_of (json_request_id d))\<rparr>"
    by blast
  from r(1) obtain rs where rs: "extension_requests fs = Some rs"
    and f: "find (\<lambda>r. Some (request_id r) = text_of (json_request_id d)) rs = Some r"
    by (auto simp: get_request_by_id_def split: option.splits)
  from update_first_split [OF f] obtain pre post where
    p: "rs = pre @ r # post" "\<forall>x\<in>set pre. Some (request_id x) \<noteq> text_of (json_request_id d)"
      "Some (request_id r) = text_of (json_request_id d)"
      "update_first (\<lambda>r. Some (request_id r) = text_of (json_request_id d))
         (\<lambda>r. r\<lparr>status := ''denied'', approved_at := Some (now_isoformat w)\<rparr>) rs =
       pre @ r\<lparr>status := ''denied'', approved_at := Some (now_isoformat w)\<rparr> # post"
    by blast
  have "extension_requests fs' =
      Some (pre @ r\<lparr>status := ''denied'', approved_at := Some (now_isoformat w)\<rparr> # post)"
    using r(3) rs p(4) by (simp add: deny_request_def)
  moreover have "approved_extensions fs' = approved_extensions fs"
    using r(3) by simp
  ultimately show ?thesis
    using rs p(1,2,3) r(2) by (auto simp: get_max_queries_eq)
qed

theorem deny_changes_only_the_record_witness:
  "fst (deny_extension example_config example_world
          (Object (admin_body ''secret'' ''0f8fad5b_1767607200'' Unset)) pending_files) =
     (Success ''Extension request denied'' ''0f8fad5b'', 200) \<and>
   denied_files = \<lparr>extension_requests =
       Some [example_request\<lparr>status := ''denied'',
               approved_at := Some ''2026-01-05T10:00:00.000001''\<rparr>],
     approved_extensions = Absent\<rparr> \<and>
   fst (get_max_queries_for_session example_config example_world denied_files
          (example_session 2)) = 2 \<and>
   fst (get_max_queries_for_session example_config example_world approved_files
          (example_session 2)) = 7 \<and>
   fst (get_max_queries_for_session example_config example_world denied_after_approval
          (example_session 2)) = 7"
proof -
  have a: "deny_extension example_config example_world
          (Object (admin_body ''secret'' ''0f8fad5b_1767607200'' Unset)) pending_files =
     ((Success ''Extension request denied'' ''0f8fad5b'', 200), denied_files)"
    by (simp add: denied_files_def example_defs2 admin_defs)
  have b: "deny_extension example_config example_world
          (Object (admin_body ''secret'' ''0f8fad5b_1767607200'' Unset)) approved_files =
     ((Success ''Extension request denied'' ''0f8fad5b'', 200), denied_after_approval)"
    by (simp add: denied_after_approval_def approved_files_def example_defs2 admin_defs)
  have c: "fst (get_max_queries_for_session example_config example_world pending_files
          (example_session 2)) = 2"
    by (simp add: example_defs2 handler_defs)
  have d: "fst (get_max_queries_for_session example_config example_world approved_files
          (example_session 2)) = 7"
    by (simp add: approved_files_def example_defs2 admin_defs handler_defs)
  from deny_changes_only_the_record [OF a] c
  have 1: "fst (get_max_queries_for_session example_config example_world denied_files
          (example_session 2)) = 2"
    by auto
  from deny_changes_only_the_record [OF b] d
  have 2: "fst (get_max_queries_for_session example_config example_world denied_after_approval
          (example_session 2)) = 7"
    by auto
  have 3: "denied_files = \<lparr>extension_requests =
       Some [example_request\<lparr>status := ''denied'',
               approved_at := Some ''2026-01-05T10:00:00.000001''\<rparr>],
     approved_extensions = Absent\<rparr>"
    by (simp add: denied_files_def example_defs2 admin_defs)
  from a 1 2 3 d show ?thesis by simp
qed

section \<open>Errors of the administrator's calls\<close>




section \<open>The default grant\<close>

text \<open>
  Claim C9. An approval whose body has no \<open>queries_granted\<close> field gives the same response
  and the same files as one that supplies 10; when it succeeds, the ledger record and
  the grant in the approvals file both hold 10 granted queries.
\<close>

theorem approve_default_queries_granted:
  "approve_extension cfg w (Object (d\<lparr>json_queries_granted := Unset\<rparr>)) fs =
     approve_extension cfg w (Object (d\<lparr>json_queries_granted := IntOf 10\<rparr>)) fs \<and>
   (\<forall>msg sid code fs'.
      approve_extension cfg w (Object (d\<lparr>json_queries_granted := Unset\<rparr>)) fs =
        ((Success msg sid, code), fs') \<longrightarrow>
      (\<exists>r. get_request_by_id (extension_requests fs') (text_of (json_request_id d)) = Some r \<and>
            status r = ''approved'' \<and> queries_granted r = 10) \<and>
      (\<exists>m g. approved_extensions fs' = Approvals m \<and> m sid = Some g \<and>
            grant_queries_granted g = 10))"
proof (intro conjI allI impI)
  show "approve_extension cfg w (Object (d\<lparr>json_queries_granted := Unset\<rparr>)) fs =
     approve_extension cfg w (Object (d\<lparr>json_queries_granted := IntOf 10\<rparr>)) fs"
    by (simp add: approve_extension_def int_of_arg_def)
next
  fix msg sid code fs'
  assume a: "approve_extension cfg w (Object (d\<lparr>json_queries_granted := Unset\<rparr>)) fs =
        ((Success msg sid, code), fs')"
  from approve_extension_success [OF a] obtain r where
    r: "get_request_by_id (extension_requests fs) (text_of (json_request_id d)) = Some r"
      "extension_requests fs' = approve_request w (extension_requests fs) (text_of (json_request_id d)) 10"
      "approved_extensions fs' = Approvals
             ((case approved_extensions fs of Approvals m \<Rightarrow> m | _ \<Rightarrow> Map.empty)
               (sid \<mapsto> \<lparr>grant_queries_granted = 10,
                          grant_approved_at = now_isoformat_app w,
                          grant_request_id = text_of (json_request_id d),
                          grant_email = email r\<rparr>))"
    by (auto simp: int_of_arg_def)
  show "\<exists>r. get_request_by_id (extension_requests fs') (text_of (json_request_id d)) = Some r \<and>
            status r = ''approved'' \<and> queries_granted r = 10"
    unfolding r(2) using get_request_by_id_approved [OF r(1)] by simp
  show "\<exists>m g. approved_extensions fs' = Approvals m \<and> m sid = Some g \<and>
            grant_queries_granted g = 10"
    unfolding r(3) by simp
qed

theorem approve_default_queries_granted_witness:
  "approve_extension example_config example_world
     (Object (admin_body ''secret'' ''0f8fad5b_1767607200'' Unset)) pending_files =
   ((Success ''Extension approved: 10 additional queries granted'' ''0f8fad5b'', 200),
    \<lparr>extension_requests =
       Some [example_request\<lparr>status := ''approved'', queries_granted := 10,
               approved_at := Some ''2026-01-05T10:00:00.000001''\<rparr>],
     approved_extensions = Approvals [''0f8fad5b'' \<mapsto>
       \<lparr>grant_queries_granted = 10, grant_approved_at = ''2026-01-05T10:00:00.000245'',
        grant_request_id = Some ''0f8fad5b_1767607200'', grant_email = ''a@b.com''\<rparr>]\<rparr>)"
  using approve_default_queries_granted
      [of example_config example_world "admin_body ''secret'' ''0f8fad5b_1767607200'' Unset"
          pending_files]
  by (simp add: example_defs2 admin_defs str_int_5)

section \<open>Reading the ledger back\<close>

text \<open>
  Claim C6. After \<open>N\<close> calls of \<open>create_request\<close> on a ledger, the records returned are the
  records as written (every field as given at creation), and \<open>get_all_requests\<close> with
  filter \<open>all\<close> returns the earlier content of the ledger together with exactly those
  records, each as often as written; starting from no ledger file these are exactly the \<open>N\<close>
  records. The list is ordered by timestamp, newest first. \<open>get_pending_requests\<close> and
  \<open>get_all_requests\<close> with a status filter return the records they select in the same
  newest-first order.
\<close>

theorem ledger_round_trip:
  "(\<forall>rs led. create_requests cs led0 = (rs, led) \<longrightarrow>
      rs = map written_record cs \<and>
      mset (get_all_requests led ''all'') = mset (records_of led0) + mset rs \<and>
      (led0 = None \<longrightarrow> length (get_all_requests led ''all'') = length cs) \<and>
      newest_first (get_all_requests led ''all'')) \<and>
   newest_first (get_pending_requests led1) \<and>
   mset (get_pending_requests led1) =
     mset (filter (\<lambda>r. status r = ''pending'') (records_of led1)) \<and>
   newest_first (get_all_requests led1 flt) \<and>
   mset (get_all_requests led1 flt) =
     mset (filter (\<lambda>r. flt = ''all'' \<or> status r = flt) (records_of led1))"
proof (intro conjI allI impI)
  fix rs led
  assume a: "create_requests cs led0 = (rs, led)"
  then show rs: "rs = map written_record cs"
    by (simp add: create_requests_eq)
  from a have f: "records_of led = records_of led0 @ rs"
    by (auto simp: create_requests_eq records_of_def split: if_splits)
  show m: "mset (get_all_requests led ''all'') = mset (records_of led0) + mset rs"
    using get_all_requests_props [of led "''all''"] f by simp
  show "newest_first (get_all_requests led ''all'')"
    using get_all_requests_props by blast
  show "length (get_all_requests led ''all'') = length cs" if "led0 = None"
  proof -
    have "size (mset (get_all_requests led ''all'')) = size (mset rs)"
      using m that by (simp add: records_of_def)
    then show ?thesis by (simp add: rs)
  qed
qed (simp_all add: get_all_requests_props get_pending_requests_props)

theorem ledger_round_trip_witness:
  "get_all_requests (snd (create_requests example_creates None)) ''all'' =
     [written_record (world_at ''2026-01-07T08:30:00'' 1767774600, ''7c9e6679'', ''c@d.org''),
      written_record (world_at ''2026-01-06T23:59:59.999999'' 1767743999, ''16fd2706'', ''e@f.net''),
      written_record (world_at ''2026-01-05T10:00:00.000001'' 1767607200, ''0f8fad5b'', ''a@b.com'')] \<and>
   newest_first (get_all_requests (snd (create_requests example_creates None)) ''all'') \<and>
   length (get_all_requests (snd (create_requests example_creates None)) ''all'') = 3"
proof -
  have c: "create_requests example_creates None =
      (map written_record example_creates, Some (map written_record example_creates))"
    by (simp add: create_requests_eq example_creates_def records_of_def)
  have l: "length example_creates = 3"
    by (simp add: example_creates_def)
  have e: "get_all_requests (snd (create_requests example_creates None)) ''all'' =
     [written_record (world_at ''2026-01-07T08:30:00'' 1767774600, ''7c9e6679'', ''c@d.org''),
      written_record (world_at ''2026-01-06T23:59:59.999999'' 1767743999, ''16fd2706'', ''e@f.net''),
      written_record (world_at ''2026-01-05T10:00:00.000001'' 1767607200, ''0f8fad5b'', ''a@b.com'')]"
    unfolding c
    by (simp add: example_creates_def get_all_requests_def py_sort_reverse_def written_record_def
        world_at_def)
  from ledger_round_trip [of example_creates None] c l e show ?thesis
    by simp
qed

section \<open>The wording of the limit message\<close>

text \<open>
  Claim C4, as stated: on an at-limit chat call that creates no extension request, the
  message is the pending-review wording exactly when the ledger holds a pending request
  of the session. The handler does not consult the ledger for the wording; it reads the
  session's \<open>extension_requested\<close> marker, which is set when the session creates a
  request and stays set after the request is denied. In the run below a session at its
  limit sends its email address, the administrator denies the request, and the session
  calls again: the answer is the pending-review wording although the ledger holds no
  pending request of the session.
\<close>

theorem pending_wording_counterexample:
  "fst (chat example_config example_world (Object \<lparr>json_message = Text ''any news?''\<rparr>)
          (fst (snd after_request)) files_after_denial) =
     (LimitReached pending_message 2 2, 429) \<and>
   snd (snd (chat example_config example_world (Object \<lparr>json_message = Text ''any news?''\<rparr>)
          (fst (snd after_request)) files_after_denial)) = files_after_denial \<and>
   \<not> has_pending_request (extension_requests files_after_denial) ''0f8fad5b'' \<and>
   fst (get_session_id example_world (fst (snd after_request))) = ''0f8fad5b''"
  by (simp add: after_request_eq files_after_denial_eq denied_files_def example_defs2 admin_defs
      handler_defs strip_def isspace_def)

text \<open>
  Claim C4, amended: on an at-limit chat call that creates no extension request (the
  ledger is left as it was) and whose body the handler reads without an exception, the
  response is \<open>limit_reached\<close> with status 429, and its message is the pending-review
  wording exactly when the session's \<open>extension_requested\<close> marker is set; otherwise it
  is the wording that states the limit and invites the user to send an email address.
  The same holds of the message of every plain \<open>limit_reached\<close> response, whatever the
  body.
\<close>

theorem limit_wording_follows_session_marker:
  assumes "fst (get_max_queries_for_session cfg w fs s) \<le> get_query_count s"
    and "extension_requests (snd (snd (chat cfg w data s fs))) = extension_requests fs"
  shows "(readable data \<longrightarrow>
           (\<exists>msg. fst (chat cfg w data s fs) =
              (LimitReached msg (get_query_count s)
                 (fst (get_max_queries_for_session cfg w fs s)), 429) \<and>
            (msg = pending_message \<longleftrightarrow> sess_extension_requested s) \<and>
            (msg \<noteq> pending_message \<longrightarrow>
               msg = limit_message (fst (get_max_queries_for_session cfg w fs s))))) \<and>
         (\<forall>msg c m code. fst (chat cfg w data s fs) = (LimitReached msg c m, code) \<longrightarrow>
            (msg = pending_message \<longleftrightarrow> sess_extension_requested s) \<and>
            (msg \<noteq> pending_message \<longrightarrow>
               msg = limit_message (fst (get_max_queries_for_session cfg w fs s))) \<and>
            c = get_query_count s \<and> m = fst (get_max_queries_for_session cfg w fs s) \<and>
            code = 429)"
proof -
  let ?sid = "fst (get_session_id w s)" and ?s1 = "snd (get_session_id w s)"
  let ?lim = "effective_limit cfg (approved_extensions fs) ?sid"
  have flag: "sess_extension_requested ?s1 = sess_extension_requested s"
    by (simp add: get_session_id_def split: option.splits)
  from assms(1) have c: "chat cfg w data s fs =
      chat_limit_reached w data (sess_query_count s) ?lim ?sid ?s1 fs"
    by (simp add: chat_eq get_max_queries_eq get_query_count_def)
  have d: "limit_reached_default (sess_query_count s) ?lim ?s1 fs =
      ((LimitReached (if sess_extension_requested s then pending_message else limit_message ?lim)
          (sess_query_count s) ?lim, 429), ?s1, fs)"
    by (simp add: limit_reached_default_def flag)
  have 1: "\<exists>msg. fst (chat cfg w data s fs) = (LimitReached msg (sess_query_count s) ?lim, 429) \<and>
            (msg = pending_message \<longleftrightarrow> sess_extension_requested s) \<and>
            (msg \<noteq> pending_message \<longrightarrow> msg = limit_message ?lim)"
    if "readable data"
    using chat_limit_reached_default [OF that assms(2) [unfolded c]]
      pending_not_limit_message [of ?lim]
    by (simp add: c d)
  have 2: "(msg = pending_message \<longleftrightarrow> sess_extension_requested s) \<and>
            (msg \<noteq> pending_message \<longrightarrow> msg = limit_message ?lim) \<and>
            c' = sess_query_count s \<and> m = ?lim \<and> code = 429"
    if "fst (chat cfg w data s fs) = (LimitReached msg c' m, code)" for msg c' m code
    using chat_limit_reached_plain [OF that [unfolded c]] that
      pending_not_limit_message [of ?lim]
    by (cases "sess_extension_requested s") (auto simp: c d)
  from 1 2 show ?thesis
    unfolding get_max_queries_eq fst_conv get_query_count_def by blast
qed

theorem limit_wording_follows_session_marker_witness:
  "fst (chat example_config example_world (Object \<lparr>json_message = Text ''any news?''\<rparr>)
          (fst (snd after_request)) files_after_denial) =
     (LimitReached pending_message 2 2, 429) \<and>
   sess_extension_requested (fst (snd after_request)) \<and>
   fst (chat example_config example_world (Object \<lparr>json_message = Text ''any news?''\<rparr>)
          (example_session 2) pending_files) =
     (LimitReached (limit_message 2) 2 2, 429) \<and>
   \<not> sess_extension_requested (example_session 2)"
proof -
  have l1: "fst (get_max_queries_for_session example_config example_world files_after_denial
               (fst (snd after_request))) \<le> get_query_count (fst (snd after_request))"
    by (simp add: after_request_eq files_after_denial_eq denied_files_def example_defs2 admin_defs
        handler_defs)
  have u1: "extension_requests (snd (snd (chat example_config example_world
               (Object \<lparr>json_message = Text ''any news?''\<rparr>) (fst (snd after_request))
               files_after_denial))) = extension_requests files_after_denial"
    by (simp add: after_request_eq files_after_denial_eq denied_files_def example_defs2 admin_defs
        handler_defs strip_def isspace_def)
  have l2: "fst (get_max_queries_for_session example_config example_world pending_files
               (example_session 2)) \<le> get_query_count (example_session 2)"
    by (simp add: example_defs2 handler_defs)
  have u2: "extension_requests (snd (snd (chat example_config example_world
               (Object \<lparr>json_message = Text ''any news?''\<rparr>) (example_session 2)
               pending_files))) = extension_requests pending_files"
    by (simp add: example_defs2 handler_defs strip_def isspace_def)
  have f1: "sess_extension_requested (fst (snd after_request))"
    by (simp add: after_request_eq)
  have f2: "\<not> sess_extension_requested (example_session 2)"
    by (simp add: example_session_def)
  have m1: "fst (get_max_queries_for_session example_config example_world files_after_denial
               (fst (snd after_request))) = 2"
    "get_query_count (fst (snd after_request)) = 2"
    by (simp_all add: after_request_eq files_after_denial_eq denied_files_def example_defs2
        admin_defs handler_defs)
  have m2: "fst (get_max_queries_for_session example_config example_world pending_files
               (example_session 2)) = 2" "get_query_count (example_session 2) = 2"
    by (simp_all add: example_defs2 handler_defs)
  have rd: "readable (Object \<lparr>json_message = Text ''any news?''\<rparr>)"
    by (simp add: readable_def)
  from limit_wording_follows_session_marker [OF l1 u1, THEN conjunct1, rule_format, OF rd]
    f1 m1
  have 1: "fst (chat example_config example_world (Object \<lparr>json_message = Text ''any news?''\<rparr>)
          (fst (snd after_request)) files_after_denial) = (LimitReached pending_message 2 2, 429)"
    by auto
  from limit_wording_follows_session_marker [OF l2 u2, THEN conjunct1, rule_format, OF rd]
    f2 m2
  have 2: "fst (chat example_config example_world (Object \<lparr>json_message = Text ''any news?''\<rparr>)
          (example_session 2) pending_files) = (LimitReached (limit_message 2) 2 2, 429)"
    by auto
  from 1 2 f1 f2 show ?thesis by simp
qed

section \<open>What counts as a query\<close>




end
